theory Spec2Isabelle
  imports Main "HOL-Library.Sublist" "HOL-Library.Word"
begin

section \<open>Go strings\<close>

text \<open>
  A Go string is a sequence of bytes; \<open>string\<close> (a list of 8-bit characters) is the same
  thing. The helpers below are the functions of package \<open>strings\<close> that
  \<open>pkg/plugin/duckdb_driver.go\<close> calls.
\<close>

definition HasPrefix :: "string \<Rightarrow> string \<Rightarrow> bool" where
  "HasPrefix s p = (take (length p) s = p)"

definition HasSuffix :: "string \<Rightarrow> string \<Rightarrow> bool" where
  "HasSuffix s p = (length p \<le> length s \<and> drop (length s - length p) s = p)"

text \<open>
  \<open>unicode.IsSpace\<close>, on the UTF-8 encoding: the six ASCII white-space bytes, U+0085 and
  U+00A0 (two bytes each), and the white-space code points beyond Latin-1 (U+1680,
  U+2000 .. U+200A, U+2028, U+2029, U+202F, U+205F, U+3000; three bytes each).
\<close>

definition spaceRunes :: "string list" where
  "spaceRunes =
    [[CHR 0x09], [CHR 0x0A], [CHR 0x0B], [CHR 0x0C], [CHR 0x0D], [CHR 0x20],
     [CHR 0xC2, CHR 0x85], [CHR 0xC2, CHR 0xA0],
     [CHR 0xE1, CHR 0x9A, CHR 0x80],
     [CHR 0xE2, CHR 0x80, CHR 0x80], [CHR 0xE2, CHR 0x80, CHR 0x81],
     [CHR 0xE2, CHR 0x80, CHR 0x82], [CHR 0xE2, CHR 0x80, CHR 0x83],
     [CHR 0xE2, CHR 0x80, CHR 0x84], [CHR 0xE2, CHR 0x80, CHR 0x85],
     [CHR 0xE2, CHR 0x80, CHR 0x86], [CHR 0xE2, CHR 0x80, CHR 0x87],
     [CHR 0xE2, CHR 0x80, CHR 0x88], [CHR 0xE2, CHR 0x80, CHR 0x89],
     [CHR 0xE2, CHR 0x80, CHR 0x8A],
     [CHR 0xE2, CHR 0x80, CHR 0xA8], [CHR 0xE2, CHR 0x80, CHR 0xA9],
     [CHR 0xE2, CHR 0x80, CHR 0xAF],
     [CHR 0xE2, CHR 0x81, CHR 0x9F],
     [CHR 0xE3, CHR 0x80, CHR 0x80]]"

text \<open>The number of bytes of the white-space rune that \<open>s\<close> starts with; 0 when there is none.\<close>

definition spaceWidth :: "string list \<Rightarrow> string \<Rightarrow> nat" where
  "spaceWidth runes s = (case find (\<lambda>w. HasPrefix s w) runes of None \<Rightarrow> 0 | Some w \<Rightarrow> length w)"

function trimRunes :: "string list \<Rightarrow> string \<Rightarrow> string" where
  "trimRunes runes s =
     (if spaceWidth runes s = 0 \<or> s = [] then s else trimRunes runes (drop (spaceWidth runes s) s))"
  by pat_completeness auto
termination
  by (relation "measure (\<lambda>(runes, s). length s)") auto

declare trimRunes.simps [simp del]

text \<open>
  \<open>strings.TrimSpace\<close>: all leading and all trailing white-space runes removed. The
  trailing end is read backwards, so the runes are matched reversed on the reversed string.
\<close>

definition TrimSpace :: "string \<Rightarrow> string" where
  "TrimSpace s = rev (trimRunes (map rev spaceRunes) (rev (trimRunes spaceRunes s)))"

text \<open>
  \<open>strings.ReplaceAll(s, old, new)\<close> for an \<open>old\<close> of one byte, which is how the driver
  calls it: every occurrence of the byte is replaced, left to right.
\<close>

fun ReplaceAll :: "string \<Rightarrow> char \<Rightarrow> string \<Rightarrow> string" where
  "ReplaceAll [] old new = []"
| "ReplaceAll (c # cs) old new = (if c = old then new @ ReplaceAll cs old new else c # ReplaceAll cs old new)"

text \<open>The verb \<open>%d\<close> of \<open>fmt\<close> on a non-negative integer: decimal digits, no padding.\<close>

definition digitChar :: "nat \<Rightarrow> char" where
  "digitChar d = ''0123456789'' ! d"

fun showNat :: "nat \<Rightarrow> string" where
  "showNat n = (if n < 10 then [digitChar n] else showNat (n div 10) @ [digitChar (n mod 10)])"

declare showNat.simps [simp del]

section \<open>Errors\<close>

text \<open>
  Every error value the driver can hand back. \<open>ConfigError\<close> is the driver's own type;
  \<open>BadArgumentCount\<close> is \<open>sqlutil.ErrorBadArgumentCount\<close> wrapped by \<open>fmt.Errorf\<close> with the
  text that follows the \<open>%w\<close> verb; \<open>NumError\<close> is what \<open>strconv\<close> returns; \<open>EngineError\<close> is
  an error of the database engine, \<open>LoadError\<close> one of the settings loader, \<open>ScanError\<close> the
  error of a \<open>Scan\<close> method, and \<open>Panic\<close> a failed type assertion.
\<close>

datatype numErr = ErrSyntax | ErrRange

datatype error =
    ConfigError string
  | BadArgumentCount string
  | NumError numErr
  | EngineError string
  | LoadError string
  | ScanError string
  | Panic

section \<open>Macros\<close>

text \<open>
  \<open>time.Time\<close> after \<open>UTC()\<close>: the civil fields of the instant in UTC, which is all that
  \<open>Format\<close> reads. \<open>FormatRFC3339\<close> is \<open>Format(time.RFC3339)\<close> on such a time: the layout
  \<open>2006-01-02T15:04:05Z07:00\<close>, whose zone is \<open>Z\<close> in UTC.
\<close>

record Time =
  year :: nat
  month :: nat
  day :: nat
  hour :: nat
  minute :: nat
  second :: nat

definition pad2 :: "nat \<Rightarrow> string" where
  "pad2 n = (if n < 10 then CHR ''0'' # showNat n else showNat n)"

definition pad4 :: "nat \<Rightarrow> string" where
  "pad4 n = replicate (4 - length (showNat n)) (CHR ''0'') @ showNat n"

definition FormatRFC3339 :: "Time \<Rightarrow> string" where
  "FormatRFC3339 t =
     pad4 (year t) @ ''-'' @ pad2 (month t) @ ''-'' @ pad2 (day t) @ ''T'' @
     pad2 (hour t) @ '':'' @ pad2 (minute t) @ '':'' @ pad2 (second t) @ ''Z''"

record TimeRange =
  From :: Time
  To :: Time

record Query =
  RawSQL :: string
  TimeRange :: TimeRange

definition macroTimeFrom :: "Query \<Rightarrow> string list \<Rightarrow> error + string" where
  "macroTimeFrom query args =
     (if length args = 0 \<or> (length args = 1 \<and> TrimSpace (args ! 0) = '''')
      then Inr ([CHR 0x27] @ FormatRFC3339 (From (TimeRange query)) @ [CHR 0x27])
      else Inl (BadArgumentCount ('': expected 0 arguments, received '' @ showNat (length args))))"

definition macroTimeTo :: "Query \<Rightarrow> string list \<Rightarrow> error + string" where
  "macroTimeTo query args =
     (if length args = 0 \<or> (length args = 1 \<and> TrimSpace (args ! 0) = '''')
      then Inr ([CHR 0x27] @ FormatRFC3339 (To (TimeRange query)) @ [CHR 0x27])
      else Inl (BadArgumentCount ('': expected 0 arguments, received '' @ showNat (length args))))"

section \<open>Regular expressions\<close>

text \<open>
  \<open>regexp.MustCompile\<close> and \<open>(*Regexp).MatchString\<close> for the fragment of the syntax the
  driver writes: literal bytes, \<open>.\<close> (any character but a newline) and a postfix \<open>*\<close>.
  Matching is by derivatives; \<open>MatchString\<close> is unanchored, as in Go: it holds when some
  substring matches.
\<close>

datatype regex =
    Void
  | Eps
  | Lit char
  | AnyCharNotNL
  | Alt regex regex
  | Concat regex regex
  | Star regex

fun nullable :: "regex \<Rightarrow> bool" where
  "nullable Void = False"
| "nullable Eps = True"
| "nullable (Lit c) = False"
| "nullable AnyCharNotNL = False"
| "nullable (Alt r s) = (nullable r \<or> nullable s)"
| "nullable (Concat r s) = (nullable r \<and> nullable s)"
| "nullable (Star r) = True"

fun deriv :: "char \<Rightarrow> regex \<Rightarrow> regex" where
  "deriv c Void = Void"
| "deriv c Eps = Void"
| "deriv c (Lit d) = (if c = d then Eps else Void)"
| "deriv c AnyCharNotNL = (if c = CHR 0x0A then Void else Eps)"
| "deriv c (Alt r s) = Alt (deriv c r) (deriv c s)"
| "deriv c (Concat r s) =
     (if nullable r then Alt (Concat (deriv c r) s) (deriv c s) else Concat (deriv c r) s)"
| "deriv c (Star r) = Concat (deriv c r) (Star r)"

fun matchesPrefix :: "regex \<Rightarrow> string \<Rightarrow> bool" where
  "matchesPrefix r [] = nullable r"
| "matchesPrefix r (c # cs) = (nullable r \<or> matchesPrefix (deriv c r) cs)"

fun MatchString :: "regex \<Rightarrow> string \<Rightarrow> bool" where
  "MatchString r [] = nullable r"
| "MatchString r (c # cs) = (matchesPrefix r (c # cs) \<or> MatchString r cs)"

definition atom :: "char \<Rightarrow> regex" where
  "atom c = (if c = CHR ''.'' then AnyCharNotNL else Lit c)"

fun MustCompile :: "string \<Rightarrow> regex" where
  "MustCompile [] = Eps"
| "MustCompile [c] = atom c"
| "MustCompile (c # d # cs) =
     (if d = CHR ''*'' then Concat (Star (atom c)) (MustCompile cs)
      else Concat (atom c) (MustCompile (d # cs)))"

section \<open>Numbers as text\<close>

text \<open>\<open>(*big.Int).String\<close>: the decimal digits, with a leading minus sign below zero.\<close>

definition bigIntString :: "int \<Rightarrow> string" where
  "bigIntString i = (if i < 0 then CHR ''-'' # showNat (nat (- i)) else showNat (nat i))"

text \<open>
  \<open>strconv.ParseUint\<close> and \<open>strconv.ParseInt\<close> for an explicit base between 2 and 36 and a
  bit size between 1 and 64 (the driver passes 10 and 16). Both return a value and an
  error, as in Go: on a range error the value is the nearest bound. \<open>digitOf\<close> is the
  \<open>switch\<close> in the loop of \<open>ParseUint\<close>; \<open>None\<close> is its \<open>default\<close> branch.
\<close>

definition lower :: "nat \<Rightarrow> nat" where
  "lower c = or c 32"

definition digitOf :: "char \<Rightarrow> nat option" where
  "digitOf c =
     (let b = (of_char c :: nat) in
      if 48 \<le> b \<and> b \<le> 57 then Some (b - 48)
      else if 97 \<le> lower b \<and> lower b \<le> 122 then Some (lower b - 97 + 10)
      else None)"

definition maxUint64 :: nat where
  "maxUint64 = 2 ^ 64 - 1"

fun parseUintLoop :: "nat \<Rightarrow> nat \<Rightarrow> nat \<Rightarrow> string \<Rightarrow> nat \<times> numErr option" where
  "parseUintLoop base maxVal n [] = (n, None)"
| "parseUintLoop base maxVal n (c # cs) =
     (case digitOf c of
        None \<Rightarrow> (0, Some ErrSyntax)
      | Some d \<Rightarrow>
          if d \<ge> base then (0, Some ErrSyntax)
          else if n \<ge> maxUint64 div base + 1 then (maxVal, Some ErrRange)
          else if n * base + d > maxUint64 \<or> n * base + d > maxVal then (maxVal, Some ErrRange)
          else parseUintLoop base maxVal (n * base + d) cs)"

definition ParseUint :: "string \<Rightarrow> nat \<Rightarrow> nat \<Rightarrow> nat \<times> numErr option" where
  "ParseUint s base bitSize =
     (if s = '''' then (0, Some ErrSyntax) else parseUintLoop base (2 ^ bitSize - 1) 0 s)"

definition ParseInt :: "string \<Rightarrow> nat \<Rightarrow> nat \<Rightarrow> int \<times> numErr option" where
  "ParseInt s0 base bitSize =
     (if s0 = '''' then (0, Some ErrSyntax)
      else
        let neg = (hd s0 = CHR ''-'');
            s = (if hd s0 = CHR ''+'' \<or> hd s0 = CHR ''-'' then tl s0 else s0);
            (un, err) = ParseUint s base bitSize
        in if err \<noteq> None \<and> err \<noteq> Some ErrRange then (0, err)
           else
             let cutoff = (2 :: nat) ^ (bitSize - 1)
             in if \<not> neg \<and> un \<ge> cutoff then (int cutoff - 1, Some ErrRange)
                else if neg \<and> un > cutoff then (- int cutoff, Some ErrRange)
                else (if neg then - int un else int un, None))"

section \<open>Converters\<close>

text \<open>
  The native values a converter receives (\<open>interface{}\<close> holding a pointer to a scan
  target) and the values it returns (\<open>interface{}\<close> holding a typed pointer, or the untyped
  \<open>nil\<close>). A pointer is an \<open>option\<close>: \<open>None\<close> is \<open>nil\<close>. A \<open>float64\<close> is its 64 bits.
\<close>

type_synonym float64 = "64 word"

type_synonym int16 = "16 word"

record NullBigInt =
  BigInt :: "int option"
  Valid :: bool

text \<open>
  \<open>(*NullBigInt).Scan\<close>. The value that \<open>database/sql\<close> passes is \<open>nil\<close>, a \<open>*big.Int\<close>
  (itself possibly a nil pointer) or a value of another type. The result is the scan target
  after the call and the error returned.
\<close>

datatype driverValue = DriverNil | DriverBigInt "int option" | DriverOther

definition NullBigInt_Scan :: "driverValue \<Rightarrow> NullBigInt \<times> error option" where
  "NullBigInt_Scan v =
     (case v of
        DriverNil \<Rightarrow> (\<lparr>BigInt = None, Valid = False\<rparr>, None)
      | DriverBigInt bi \<Rightarrow> (\<lparr>BigInt = bi, Valid = True\<rparr>, None)
      | DriverOther \<Rightarrow> (\<lparr>BigInt = None, Valid = False\<rparr>, Some (ScanError ''expected value to be big.Int'')))"

record Decimal =
  Width :: nat
  Scale :: nat
  Value :: "int option"

datatype NullDecimal = NullDecimal (Decimal: Decimal) (DecimalValid: bool)

datatype scanValue =
    ScanNullBigInt NullBigInt
  | ScanNullDecimal NullDecimal
  | ScanNullString "string option"

datatype fieldValue =
    NilValue
  | StringPtr "string option"
  | Float64Ptr "float64 option"
  | Int16Ptr "int16 option"

datatype FieldType = FieldTypeNullableString | FieldTypeNullableFloat64 | FieldTypeNullableInt16

record Converter =
  Name :: string
  InputTypeName :: string
  InputTypeRegex :: "regex option"
  FieldType :: FieldType
  ConverterFunc :: "scanValue \<Rightarrow> error + fieldValue"

record StringConverter =
  scName :: string
  scInputTypeName :: string
  ConversionFunc :: "string option \<Rightarrow> error + string option"
  OutputFieldType :: FieldType
  ReplaceFunc :: "string option \<Rightarrow> error + fieldValue"

text \<open>
  \<open>sqlutil.ToConverters\<close>: each string converter becomes a converter with the same name and
  type name and no regex, whose field type is the replacer's and whose function runs the
  conversion function and then the replace function on the scanned text.
\<close>

definition ToConverter :: "StringConverter \<Rightarrow> Converter" where
  "ToConverter s =
     \<lparr>Name = scName s, InputTypeName = scInputTypeName s, InputTypeRegex = None,
      FieldType = OutputFieldType s,
      ConverterFunc = (\<lambda>v. case v of
          ScanNullString ns \<Rightarrow>
            (case ConversionFunc s ns of Inl err \<Rightarrow> Inl err | Inr v' \<Rightarrow> ReplaceFunc s v')
        | _ \<Rightarrow> Inl Panic)\<rparr>"

definition ToConverters :: "StringConverter list \<Rightarrow> Converter list" where
  "ToConverters ss = map ToConverter ss"

text \<open>
  The replace function of the three float converters; the source repeats this closure for
  \<open>FLOAT8\<close>, \<open>FLOAT32\<close> and \<open>FLOAT\<close>. \<open>ParseFloat\<close> stands for
  \<open>strconv.ParseFloat(_, 64)\<close>.
\<close>

definition floatReplaceFunc ::
  "(string \<Rightarrow> numErr + float64) \<Rightarrow> string option \<Rightarrow> error + fieldValue" where
  "floatReplaceFunc ParseFloat inp =
     (case inp of
        None \<Rightarrow> Inr NilValue
      | Some s \<Rightarrow> (case ParseFloat s of Inl err \<Rightarrow> Inl (NumError err) | Inr v \<Rightarrow> Inr (Float64Ptr (Some v))))"

text \<open>
  The replace function of the five narrow integer converters; the source repeats this
  closure for \<open>INT2\<close>, \<open>INT8\<close>, \<open>TINYINT\<close>, \<open>INT16\<close> and \<open>SMALLINT\<close>. \<open>int16(i64)\<close> keeps
  the low 16 bits.
\<close>

definition intReplaceFunc :: "string option \<Rightarrow> error + fieldValue" where
  "intReplaceFunc inp =
     (case inp of
        None \<Rightarrow> Inr NilValue
      | Some s \<Rightarrow>
          (case ParseInt s 10 16 of
             (i64, Some err) \<Rightarrow> Inl (NumError err)
           | (i64, None) \<Rightarrow> Inr (Int16Ptr (Some (word_of_int i64)))))"

definition bigIntConverters :: "Converter list" where
  "bigIntConverters =
     [\<lparr>Name = ''handle HUGEINT (returns *big.Int)'', InputTypeName = ''HUGEINT'',
       InputTypeRegex = None, FieldType = FieldTypeNullableString,
       ConverterFunc = (\<lambda>inp. case inp of
           ScanNullBigInt v \<Rightarrow>
             (if \<not> Valid v \<or> BigInt v = None then Inr (StringPtr None)
              else Inr (StringPtr (Some (bigIntString (the (BigInt v))))))
         | _ \<Rightarrow> Inl Panic)\<rparr>]"

text \<open>The slice of string converters that the source passes to \<open>sqlutil.ToConverters\<close>.\<close>

definition stringConverters :: "(string \<Rightarrow> numErr + float64) \<Rightarrow> StringConverter list" where
  "stringConverters ParseFloat =
     [\<lparr>scName = ''handle FLOAT8'', scInputTypeName = ''FLOAT8'', ConversionFunc = Inr,
       OutputFieldType = FieldTypeNullableFloat64, ReplaceFunc = floatReplaceFunc ParseFloat\<rparr>,
      \<lparr>scName = ''handle FLOAT32'', scInputTypeName = ''FLOAT32'', ConversionFunc = Inr,
       OutputFieldType = FieldTypeNullableFloat64, ReplaceFunc = floatReplaceFunc ParseFloat\<rparr>,
      \<lparr>scName = ''handle FLOAT'', scInputTypeName = ''FLOAT'', ConversionFunc = Inr,
       OutputFieldType = FieldTypeNullableFloat64, ReplaceFunc = floatReplaceFunc ParseFloat\<rparr>,
      \<lparr>scName = ''handle INT2'', scInputTypeName = ''INT2'', ConversionFunc = Inr,
       OutputFieldType = FieldTypeNullableInt16, ReplaceFunc = intReplaceFunc\<rparr>,
      \<lparr>scName = ''handle INT8'', scInputTypeName = ''INT8'', ConversionFunc = Inr,
       OutputFieldType = FieldTypeNullableInt16, ReplaceFunc = intReplaceFunc\<rparr>,
      \<lparr>scName = ''handle TINYINT'', scInputTypeName = ''TINYINT'', ConversionFunc = Inr,
       OutputFieldType = FieldTypeNullableInt16, ReplaceFunc = intReplaceFunc\<rparr>,
      \<lparr>scName = ''handle INT16'', scInputTypeName = ''INT16'', ConversionFunc = Inr,
       OutputFieldType = FieldTypeNullableInt16, ReplaceFunc = intReplaceFunc\<rparr>,
      \<lparr>scName = ''handle SMALLINT'', scInputTypeName = ''SMALLINT'', ConversionFunc = Inr,
       OutputFieldType = FieldTypeNullableInt16, ReplaceFunc = intReplaceFunc\<rparr>]"

definition strConverters :: "(string \<Rightarrow> numErr + float64) \<Rightarrow> Converter list" where
  "strConverters ParseFloat = ToConverters (stringConverters ParseFloat)"

text \<open>\<open>Float64\<close> stands for \<open>duckdb.Decimal.Float64\<close>.\<close>

definition converters :: "(Decimal \<Rightarrow> float64) \<Rightarrow> Converter list" where
  "converters Float64 =
     [\<lparr>Name = ''NULLABLE decimal converter'', InputTypeName = '''',
       InputTypeRegex = Some (MustCompile ''DECIMAL.*''), FieldType = FieldTypeNullableFloat64,
       ConverterFunc = (\<lambda>n. case n of
           ScanNullDecimal v \<Rightarrow>
             (if \<not> DecimalValid v then Inr (Float64Ptr None)
              else Inr (Float64Ptr (Some (Float64 (Decimal v)))))
         | _ \<Rightarrow> Inl Panic)\<rparr>]"

definition GetConverterList ::
  "(string \<Rightarrow> numErr + float64) \<Rightarrow> (Decimal \<Rightarrow> float64) \<Rightarrow> Converter list" where
  "GetConverterList ParseFloat Float64 =
     (let allConverters = bigIntConverters @ converters Float64
      in allConverters @ strConverters ParseFloat)"

section \<open>Connecting\<close>

text \<open>
  The settings that \<open>models.LoadPluginSettings\<close> decodes, and the driver with its
  \<open>Initialized\<close> flag (the mutex serialises the callback below; the model runs one call at
  a time).
\<close>

record Secrets =
  MotherDuckToken :: string

record PluginSettings =
  Path :: string
  InitSql :: string
  Secrets :: Secrets

record DuckDBDriver =
  Initialized :: bool

text \<open>
  \<open>driver.ExecerContext\<close>: executing a statement changes the engine and may fail. The
  result set that \<open>ExecContext\<close> also returns is dropped by the driver.
\<close>

type_synonym 'e ExecerContext = "'e \<Rightarrow> string \<Rightarrow> 'e \<times> error option"

abbreviation (input) sq :: string where
  "sq \<equiv> [CHR 0x27]"

abbreviation (input) dq :: string where
  "dq \<equiv> [CHR 0x22]"

text \<open>
  The statements that the callback collects in \<open>bootQueries\<close>. \<open>Join\<close> stands for
  \<open>filepath.Join\<close> and \<open>homePath\<close> for the value of the environment variable
  \<open>GF_PATHS_DATA\<close> when the callback runs.
\<close>

definition bootQueries ::
  "(string \<Rightarrow> string \<Rightarrow> string) \<Rightarrow> string \<Rightarrow> string \<Rightarrow> PluginSettings \<Rightarrow> string list" where
  "bootQueries Join homePath cleanPath config =
     (let bootQueries0 = [];
          bootQueries1 =
            (if homePath \<noteq> '''' then
               let b1 = bootQueries0 @ [''SET home_directory='' @ sq @ homePath @ sq @ '';''];
                   extensionPath = Join homePath ''.duckdb/extensions'';
                   b2 = b1 @ [''SET extension_directory='' @ sq @ extensionPath @ sq @ '';''];
                   secretsPath = Join homePath ''.duckdb/stored_secrets''
               in b2 @ [''SET secret_directory='' @ sq @ secretsPath @ sq @ '';'']
             else bootQueries0);
          bootQueries2 =
            (if HasPrefix cleanPath ''md:'' then
               let b1 = bootQueries1 @ [''INSTALL '' @ sq @ ''motherduck'' @ sq @ '';'',
                                        ''LOAD '' @ sq @ ''motherduck'' @ sq @ '';''];
                   b2 = b1 @ [''SET motherduck_token='' @ sq @ MotherDuckToken (Secrets config) @ sq @ '';''];
                   quotedDB = sq @ ReplaceAll cleanPath (CHR 0x27) (sq @ sq) @ sq
               in b2 @ [''ATTACH IF NOT EXISTS '' @ quotedDB @ '' (TYPE motherduck);'']
             else if MotherDuckToken (Secrets config) \<noteq> '''' then
               let b1 = bootQueries1 @ [''INSTALL '' @ sq @ ''motherduck'' @ sq @ '';'',
                                        ''LOAD '' @ sq @ ''motherduck'' @ sq @ '';'']
               in b1 @ [''SET motherduck_token='' @ sq @ MotherDuckToken (Secrets config) @ sq @ '';'']
             else bootQueries1)
      in if TrimSpace (InitSql config) \<noteq> '''' then bootQueries2 @ [InitSql config]
         else bootQueries2)"

text \<open>The loop over \<open>bootQueries\<close>: the first error ends it and is returned.\<close>

fun execQueries :: "'e ExecerContext \<Rightarrow> 'e \<Rightarrow> string list \<Rightarrow> 'e \<times> error option" where
  "execQueries execer e [] = (e, None)"
| "execQueries execer e (query # rest) =
     (case execer e query of
        (e', Some err) \<Rightarrow> (e', Some err)
      | (e', None) \<Rightarrow> execQueries execer e' rest)"

text \<open>
  The callback that \<open>Connect\<close> hands to \<open>duckdb.NewConnector\<close>; the connector runs it on a
  connection it has opened. Its state is the driver and the engine.
\<close>

definition connInitFn ::
  "(string \<Rightarrow> string \<Rightarrow> string) \<Rightarrow> string \<Rightarrow> PluginSettings \<Rightarrow> string \<Rightarrow> 'e ExecerContext \<Rightarrow>
   DuckDBDriver \<times> 'e \<Rightarrow> (DuckDBDriver \<times> 'e) \<times> error option" where
  "connInitFn Join cleanPath config homePath execer = (\<lambda>(d, e).
     if \<not> Initialized d then
       (case execQueries execer e (bootQueries Join homePath cleanPath config) of
          (e', Some err) \<Rightarrow> ((d, e'), Some err)
        | (e', None) \<Rightarrow> ((d\<lparr>Initialized := True\<rparr>, e'), None))
     else ((d, e), None))"

text \<open>
  \<open>Connect\<close>. \<open>loaded\<close> is what \<open>models.LoadPluginSettings(settings)\<close> returned;
  \<open>NewConnector\<close> stands for \<open>duckdb.NewConnector\<close>, which acts on the world \<open>w\<close> outside
  the function (the engine, the driver) and returns a connector or an error. The final
  \<open>sql.OpenDB(connector)\<close> wraps the connector without using it.
\<close>

definition Connect ::
  "(string \<Rightarrow> string \<Rightarrow> string) \<Rightarrow>
   (string \<Rightarrow> (string \<Rightarrow> 'e ExecerContext \<Rightarrow> DuckDBDriver \<times> 'e \<Rightarrow> (DuckDBDriver \<times> 'e) \<times> error option) \<Rightarrow>
      'w \<Rightarrow> 'w \<times> (error + 'c)) \<Rightarrow>
   error + PluginSettings \<Rightarrow> 'w \<Rightarrow> 'w \<times> (error + 'c)" where
  "Connect Join NewConnector loaded w =
     (case loaded of
        Inl err \<Rightarrow> (w, Inl err)
      | Inr config \<Rightarrow>
          let trimmedPath = TrimSpace (Path config);
              cleanPath = trimmedPath
          in if (HasPrefix trimmedPath sq \<and> HasSuffix trimmedPath sq) \<or>
                (HasPrefix trimmedPath dq \<and> HasSuffix trimmedPath dq)
             then (w, Inl (ConfigError (''Invalid path: '' @ trimmedPath @ '' -> example input: md:sample_data'')))
             else if HasPrefix cleanPath ''md:'' then
               (if MotherDuckToken (Secrets config) = ''''
                then (w, Inl (ConfigError ''MotherDuck Token is missing for motherduck connection''))
                else NewConnector '''' (connInitFn Join cleanPath config) w)
             else if trimmedPath \<noteq> '''' then NewConnector trimmedPath (connInitFn Join cleanPath config) w
             else NewConnector '''' (connInitFn Join cleanPath config) w)"

section \<open>Notions used to state the properties\<close>





text \<open>
  Decimal notation: \<open>isDigit\<close>, the number a digit string denotes, and the integer an
  optionally signed digit string denotes.
\<close>

definition isDigit :: "char \<Rightarrow> bool" where
  "isDigit c = (48 \<le> (of_char c :: nat) \<and> (of_char c :: nat) \<le> 57)"

definition digitsValue :: "nat \<Rightarrow> string \<Rightarrow> nat" where
  "digitsValue n ds = foldl (\<lambda>a c. a * 10 + ((of_char c :: nat) - 48)) n ds"

definition isDecimalInteger :: "string \<Rightarrow> bool" where
  "isDecimalInteger s =
     (case s of
        [] \<Rightarrow> False
      | c # cs \<Rightarrow> if c = CHR ''+'' \<or> c = CHR ''-'' then cs \<noteq> [] \<and> list_all isDigit cs
                 else list_all isDigit (c # cs))"

definition decimalValue :: "string \<Rightarrow> int" where
  "decimalValue s =
     (case s of
        [] \<Rightarrow> 0
      | c # cs \<Rightarrow> if c = CHR ''-'' then - int (digitsValue 0 cs)
                 else if c = CHR ''+'' then int (digitsValue 0 cs)
                 else int (digitsValue 0 (c # cs)))"

text \<open>
  When a converter applies to a native type name: by its type name, compared for equality,
  or by its regex.
\<close>

definition exactMatch :: "Converter \<Rightarrow> string \<Rightarrow> bool" where
  "exactMatch c typeName = (InputTypeName c = typeName)"

definition regexMatch :: "Converter \<Rightarrow> string \<Rightarrow> bool" where
  "regexMatch c typeName = (case InputTypeRegex c of None \<Rightarrow> False | Some r \<Rightarrow> MatchString r typeName)"

definition applies :: "Converter \<Rightarrow> string \<Rightarrow> bool" where
  "applies c typeName = (exactMatch c typeName \<or> regexMatch c typeName)"

text \<open>
  Modelled from the spec: the selection policy of the converter registry, which the
  plugin SDK carries out and this repository does not contain. An exact type-name match
  wins; else the first regex match wins; else (\<open>None\<close>) the value passes through without
  conversion.
\<close>

definition selectRule :: "Converter list \<Rightarrow> string \<Rightarrow> Converter option" where
  "selectRule rules typeName =
     (case find (\<lambda>c. exactMatch c typeName) rules of
        Some c \<Rightarrow> Some c
      | None \<Rightarrow> find (\<lambda>c. regexMatch c typeName) rules)"

section \<open>Sample inputs\<close>

definition exampleQuery :: Query where
  "exampleQuery = \<lparr>RawSQL = ''SELECT 1'',
     TimeRange = \<lparr>From = \<lparr>year = 2024, month = 3, day = 9, hour = 7, minute = 5, second = 0\<rparr>,
                  To = \<lparr>year = 2024, month = 12, day = 31, hour = 23, minute = 59, second = 58\<rparr>\<rparr>\<rparr>"

text \<open>A stand-in for \<open>filepath.Join\<close> on two clean elements.\<close>

definition joinSlash :: "string \<Rightarrow> string \<Rightarrow> string" where
  "joinSlash a b = a @ ''/'' @ b"


text \<open>
  A stand-in for \<open>duckdb.NewConnector\<close> whose world is the list of the data source names
  it was asked to open.
\<close>

definition openRecorded ::
  "string \<Rightarrow> (string \<Rightarrow> unit ExecerContext \<Rightarrow> DuckDBDriver \<times> unit \<Rightarrow> (DuckDBDriver \<times> unit) \<times> error option) \<Rightarrow>
   string list \<Rightarrow> string list \<times> (error + string)" where
  "openRecorded dsn initFn w = (w @ [dsn], Inr dsn)"

definition remoteSettings :: PluginSettings where
  "remoteSettings = \<lparr>Path = ''md:sample'', InitSql = ''SELECT 42;'', Secrets = \<lparr>MotherDuckToken = ''tok''\<rparr>\<rparr>"

definition constFloat :: "string \<Rightarrow> numErr + float64" where
  "constFloat s = Inl ErrSyntax"

definition zeroFloat :: "Decimal \<Rightarrow> float64" where
  "zeroFloat d = 0"

text \<open>Whether a converter with the given type name and regex applies to a type name.\<close>

definition keyApplies :: "string \<Rightarrow> string \<times> regex option \<Rightarrow> bool" where
  "keyApplies n k = (fst k = n \<or> (case snd k of None \<Rightarrow> False | Some r \<Rightarrow> MatchString r n))"

text \<open>The entry for \<open>INT2\<close> of the string converters.\<close>

definition int2Entry :: StringConverter where
  "int2Entry = \<lparr>scName = ''handle INT2'', scInputTypeName = ''INT2'', ConversionFunc = Inr,
       OutputFieldType = FieldTypeNullableInt16, ReplaceFunc = intReplaceFunc\<rparr>"

section \<open>White space\<close>

lemma spaceRunes_prefix_free:
  "list_all (\<lambda>v. list_all (\<lambda>w. \<not> HasPrefix w v \<or> v = w) spaceRunes) spaceRunes"
  by (simp add: spaceRunes_def HasPrefix_def)

lemma spaceRunes_nonempty: "list_all (\<lambda>v. v \<noteq> []) spaceRunes"
  by (simp add: spaceRunes_def)

lemma trimRunes_Nil: "trimRunes runes [] = []"
  by (subst trimRunes.simps) simp

lemma HasPrefix_append: "HasPrefix (w @ r) w"
  by (simp add: HasPrefix_def)

lemma HasPrefix_same:
  assumes "HasPrefix s v" "HasPrefix s w" "length v \<le> length w"
  shows "HasPrefix w v"
proof -
  have "take (length v) w = take (length v) (take (length w) s)"
    using assms(2) by (simp add: HasPrefix_def)
  also have "\<dots> = take (length v) s"
    using assms(3) by (simp add: min_def)
  also have "\<dots> = v"
    using assms(1) by (simp add: HasPrefix_def)
  finally show ?thesis by (simp add: HasPrefix_def)
qed

lemma spaceWidth_rune:
  assumes pf: "\<forall>v\<in>set runes. \<forall>w\<in>set runes. HasPrefix w v \<longrightarrow> v = w"
    and w: "w \<in> set runes"
  shows "spaceWidth runes (w @ r) = length w"
proof -
  obtain v where v: "find (\<lambda>v. HasPrefix (w @ r) v) runes = Some v"
    using w HasPrefix_append[of w r]
    by (cases "find (\<lambda>v. HasPrefix (w @ r) v) runes") (auto simp: find_None_iff)
  then have vin: "v \<in> set runes" and vp: "HasPrefix (w @ r) v"
    by (auto simp: find_Some_iff)
  have "v = w"
  proof (cases "length v \<le> length w")
    case True
    then have "HasPrefix w v" using HasPrefix_same[OF vp HasPrefix_append] by simp
    then show ?thesis using pf vin w by blast
  next
    case False
    then have "HasPrefix v w" using HasPrefix_same[OF HasPrefix_append vp] by simp
    then show ?thesis using pf vin w by blast
  qed
  then show ?thesis using v by (simp add: spaceWidth_def)
qed

lemma trimRunes_concat:
  assumes pf: "\<forall>v\<in>set runes. \<forall>w\<in>set runes. HasPrefix w v \<longrightarrow> v = w"
    and ne: "\<forall>v\<in>set runes. v \<noteq> []"
  shows "set ws \<subseteq> set runes \<Longrightarrow> trimRunes runes (concat ws) = []"
proof (induction ws)
  case Nil
  then show ?case by (simp add: trimRunes_Nil)
next
  case (Cons w ws)
  then have w: "w \<in> set runes" and ws: "set ws \<subseteq> set runes" by auto
  have sw: "spaceWidth runes (w @ concat ws) = length w"
    using spaceWidth_rune[OF pf w] .
  have "w \<noteq> []" using ne w by blast
  then show ?case
    using sw Cons.IH[OF ws] by (subst trimRunes.simps) simp
qed

text \<open>A string made of white-space runes only, the empty string included, trims to nothing.\<close>

lemma TrimSpace_blank: "set ws \<subseteq> set spaceRunes \<Longrightarrow> TrimSpace (concat ws) = []"
proof -
  assume a: "set ws \<subseteq> set spaceRunes"
  have pf: "\<forall>v\<in>set spaceRunes. \<forall>w\<in>set spaceRunes. HasPrefix w v \<longrightarrow> v = w"
    using spaceRunes_prefix_free by (auto simp: list_all_iff)
  have ne: "\<forall>v\<in>set spaceRunes. v \<noteq> []"
    using spaceRunes_nonempty by (auto simp: list_all_iff)
  have "trimRunes spaceRunes (concat ws) = []"
    using trimRunes_concat[OF pf ne a] .
  then show ?thesis by (simp add: TrimSpace_def trimRunes_Nil)
qed

lemma TrimSpace_Nil: "TrimSpace [] = []"
  by (simp add: TrimSpace_def trimRunes_Nil)

lemma TrimSpace_x: "TrimSpace '' x '' = ''x''"
  by code_simp

section \<open>Macros\<close>

lemma showNat_1: "showNat (Suc 0) = ''1''"
  by (simp add: showNat.simps digitChar_def)

lemma showNat_2: "showNat (Suc (Suc 0)) = ''2''"
  by (simp add: showNat.simps digitChar_def)

lemma FormatRFC3339_From_example:
  "FormatRFC3339 (From (TimeRange exampleQuery)) = ''2024-03-09T07:05:00Z''"
  by code_simp

lemma FormatRFC3339_To_example:
  "FormatRFC3339 (To (TimeRange exampleQuery)) = ''2024-12-31T23:59:58Z''"
  by code_simp

text \<open>
  C10. Called with exactly one argument that is empty or made of white space only (any
  sequence of white-space runes), \<open>macroTimeFrom\<close> and \<open>macroTimeTo\<close> return no error: they
  render the single-quoted RFC 3339 text of the query's UTC from/to bound, which is just
  what they return for no argument at all.
\<close>

theorem macro_blank_argument_renders:
  assumes "set ws \<subseteq> set spaceRunes"
  shows "macroTimeFrom query [concat ws] = Inr (sq @ FormatRFC3339 (From (TimeRange query)) @ sq)
       \<and> macroTimeTo query [concat ws] = Inr (sq @ FormatRFC3339 (To (TimeRange query)) @ sq)
       \<and> macroTimeFrom query [concat ws] = macroTimeFrom query []
       \<and> macroTimeTo query [concat ws] = macroTimeTo query []"
  using TrimSpace_blank[OF assms] by (simp add: macroTimeFrom_def macroTimeTo_def)

theorem macro_blank_argument_renders_witness:
  "set ['' '', [CHR 0x09]] \<subseteq> set spaceRunes
   \<and> macroTimeFrom exampleQuery ['' '' @ [CHR 0x09]] = Inr (sq @ ''2024-03-09T07:05:00Z'' @ sq)
   \<and> macroTimeTo exampleQuery ['' '' @ [CHR 0x09]] = Inr (sq @ ''2024-12-31T23:59:58Z'' @ sq)"
proof -
  have h: "set ['' '', [CHR 0x09]] \<subseteq> set spaceRunes"
    by (simp add: spaceRunes_def)
  show ?thesis
    using h macro_blank_argument_renders[OF h, of exampleQuery]
    by (simp add: FormatRFC3339_From_example FormatRFC3339_To_example)
qed

text \<open>
  C2, as stated, fails: the argument list holding one empty string is not empty, and both
  macros render a timestamp for it instead of returning an error.
\<close>

theorem macro_nonempty_args_counterexample:
  "[''''] \<noteq> ([] :: string list)
   \<and> macroTimeFrom exampleQuery [''''] = Inr (sq @ ''2024-03-09T07:05:00Z'' @ sq)
   \<and> macroTimeTo exampleQuery [''''] = Inr (sq @ ''2024-12-31T23:59:58Z'' @ sq)"
  by (simp add: macroTimeFrom_def macroTimeTo_def TrimSpace_Nil
      FormatRFC3339_From_example FormatRFC3339_To_example)

text \<open>
  C2, amended. For every non-empty argument list other than a single argument that trims
  to the empty string, \<open>macroTimeFrom\<close> and \<open>macroTimeTo\<close> render nothing and return the
  argument-count error whose text ends in \<open>expected 0 arguments, received N\<close>, \<open>N\<close> being
  the number of arguments.
\<close>

theorem macro_nonblank_args_rejected:
  assumes "args \<noteq> []" and "\<not> (length args = 1 \<and> TrimSpace (args ! 0) = '''')"
  shows "macroTimeFrom query args =
           Inl (BadArgumentCount ('': expected 0 arguments, received '' @ showNat (length args)))
       \<and> macroTimeTo query args =
           Inl (BadArgumentCount ('': expected 0 arguments, received '' @ showNat (length args)))"
  using assms by (simp add: macroTimeFrom_def macroTimeTo_def)

theorem macro_nonblank_args_rejected_witness:
  "macroTimeFrom exampleQuery ['' x ''] = Inl (BadArgumentCount '': expected 0 arguments, received 1'')
   \<and> macroTimeTo exampleQuery ['''', ''''] = Inl (BadArgumentCount '': expected 0 arguments, received 2'')"
  using macro_nonblank_args_rejected[of "['' x '']" exampleQuery]
        macro_nonblank_args_rejected[of "['''', '''']" exampleQuery]
  by (simp add: TrimSpace_x showNat_1 showNat_2)

section \<open>Boot statements\<close>



lemma bootQueries_parts:
  "bootQueries Join homePath cleanPath config =
     (if homePath \<noteq> '''' then
        [''SET home_directory='' @ sq @ homePath @ sq @ '';'',
         ''SET extension_directory='' @ sq @ Join homePath ''.duckdb/extensions'' @ sq @ '';'',
         ''SET secret_directory='' @ sq @ Join homePath ''.duckdb/stored_secrets'' @ sq @ '';'']
      else [])
     @ (if HasPrefix cleanPath ''md:'' \<or> MotherDuckToken (Secrets config) \<noteq> '''' then
          [''INSTALL '' @ sq @ ''motherduck'' @ sq @ '';'',
           ''LOAD '' @ sq @ ''motherduck'' @ sq @ '';'',
           ''SET motherduck_token='' @ sq @ MotherDuckToken (Secrets config) @ sq @ '';'']
        else [])
     @ (if HasPrefix cleanPath ''md:'' then
          [''ATTACH IF NOT EXISTS '' @ sq @ ReplaceAll cleanPath (CHR 0x27) (sq @ sq) @ sq @ '' (TYPE motherduck);'']
        else [])
     @ (if TrimSpace (InitSql config) \<noteq> '''' then [InitSql config] else [])"
  by (simp add: bootQueries_def Let_def)










lemma boot_example:
  "bootQueries joinSlash ''/data'' ''md:sample'' remoteSettings =
    [''SET home_directory='' @ sq @ ''/data'' @ sq @ '';'',
     ''SET extension_directory='' @ sq @ ''/data/.duckdb/extensions'' @ sq @ '';'',
     ''SET secret_directory='' @ sq @ ''/data/.duckdb/stored_secrets'' @ sq @ '';'',
     ''INSTALL '' @ sq @ ''motherduck'' @ sq @ '';'',
     ''LOAD '' @ sq @ ''motherduck'' @ sq @ '';'',
     ''SET motherduck_token='' @ sq @ ''tok'' @ sq @ '';'',
     ''ATTACH IF NOT EXISTS '' @ sq @ ''md:sample'' @ sq @ '' (TYPE motherduck);'',
     ''SELECT 42;'']"
  by code_simp

















section \<open>Validation of the target\<close>

lemma HasPrefix_HasSuffix_wrapped: "HasPrefix ([c] @ body @ [c]) [c] \<and> HasSuffix ([c] @ body @ [c]) [c]"
  by (simp add: HasPrefix_def HasSuffix_def)

lemma md_not_quoted:
  "HasPrefix t ''md:'' \<Longrightarrow> \<not> HasPrefix t sq \<and> \<not> HasPrefix t dq"
  by (cases t) (auto simp: HasPrefix_def)

lemma TrimSpace_md_sample: "TrimSpace ''md:sample'' = ''md:sample''"
  by code_simp

lemma TrimSpace_sq_md_sample: "TrimSpace (sq @ ''md:sample'' @ sq) = sq @ ''md:sample'' @ sq"
  by code_simp

lemma TrimSpace_dq_md_sample: "TrimSpace (dq @ ''md:sample'' @ dq) = dq @ ''md:sample'' @ dq"
  by code_simp

lemma HasPrefix_trim_md_sample: "HasPrefix (TrimSpace '' md:sample '') ''md:''"
  by code_simp

text \<open>
  C6. When the trimmed target is wrapped in two single quotes or in two double quotes,
  \<open>Connect\<close> returns the invalid-path \<open>ConfigError\<close> and leaves the world as it was, whatever
  \<open>NewConnector\<close> would do: the engine is not contacted. The target \<open>md:sample\<close> passes this
  check and takes the remote branch: with a token, the connector is opened on the empty
  (in-memory) name with a callback whose boot statements attach \<open>md:sample\<close>; without one,
  the remote branch reports the missing token.
\<close>

theorem quoted_target_rejected:
  "(\<forall>c body. (c = CHR 0x27 \<or> c = CHR 0x22) \<and> TrimSpace (Path config) = [c] @ body @ [c] \<longrightarrow>
      Connect Join NewConnector (Inr config) w =
        (w, Inl (ConfigError (''Invalid path: '' @ TrimSpace (Path config) @ '' -> example input: md:sample_data''))))
   \<and> (Path config = ''md:sample'' \<longrightarrow>
        Connect Join NewConnector (Inr config) w =
          (if MotherDuckToken (Secrets config) = ''''
           then (w, Inl (ConfigError ''MotherDuck Token is missing for motherduck connection''))
           else NewConnector '''' (connInitFn Join ''md:sample'' config) w)
      \<and> ''ATTACH IF NOT EXISTS '' @ sq @ ''md:sample'' @ sq @ '' (TYPE motherduck);''
          \<in> set (bootQueries Join homePath ''md:sample'' config))"
proof (intro conjI allI impI)
  fix c body
  assume a: "(c = CHR 0x27 \<or> c = CHR 0x22) \<and> TrimSpace (Path config) = [c] @ body @ [c]"
  then show "Connect Join NewConnector (Inr config) w =
        (w, Inl (ConfigError (''Invalid path: '' @ TrimSpace (Path config) @ '' -> example input: md:sample_data'')))"
    using HasPrefix_HasSuffix_wrapped[of c body]
    by (auto simp: Connect_def Let_def)
next
  assume p: "Path config = ''md:sample''"
  show "Connect Join NewConnector (Inr config) w =
          (if MotherDuckToken (Secrets config) = ''''
           then (w, Inl (ConfigError ''MotherDuck Token is missing for motherduck connection''))
           else NewConnector '''' (connInitFn Join ''md:sample'' config) w)"
    using p by (simp add: Connect_def Let_def TrimSpace_md_sample HasPrefix_def HasSuffix_def)
  show "''ATTACH IF NOT EXISTS '' @ sq @ ''md:sample'' @ sq @ '' (TYPE motherduck);''
          \<in> set (bootQueries Join homePath ''md:sample'' config)"
    by (simp add: bootQueries_parts HasPrefix_def)
qed

theorem quoted_target_rejected_witness:
  "Connect joinSlash openRecorded (Inr (remoteSettings\<lparr>Path := sq @ ''md:sample'' @ sq\<rparr>)) []
     = ([], Inl (ConfigError (''Invalid path: '' @ sq @ ''md:sample'' @ sq @ '' -> example input: md:sample_data'')))
   \<and> Connect joinSlash openRecorded (Inr (remoteSettings\<lparr>Path := dq @ ''md:sample'' @ dq\<rparr>)) []
     = ([], Inl (ConfigError (''Invalid path: '' @ dq @ ''md:sample'' @ dq @ '' -> example input: md:sample_data'')))
   \<and> Connect joinSlash openRecorded (Inr remoteSettings) [] = ([''''], Inr '''')"
  using quoted_target_rejected[of "remoteSettings\<lparr>Path := sq @ ''md:sample'' @ sq\<rparr>" joinSlash openRecorded "[]" "''''"]
        quoted_target_rejected[of "remoteSettings\<lparr>Path := dq @ ''md:sample'' @ dq\<rparr>" joinSlash openRecorded "[]" "''''"]
        quoted_target_rejected[of remoteSettings joinSlash openRecorded "[]" "''''"]
        TrimSpace_sq_md_sample TrimSpace_dq_md_sample
  by (simp add: remoteSettings_def openRecorded_def)

text \<open>
  C7. When the trimmed target starts with \<open>md:\<close> and the token is empty, \<open>Connect\<close> returns
  the missing-token \<open>ConfigError\<close> and the world is unchanged, whatever \<open>NewConnector\<close> would
  do: no connector is opened and no state is left behind.
\<close>

theorem remote_without_token_rejected:
  assumes "HasPrefix (TrimSpace (Path config)) ''md:''"
    and "MotherDuckToken (Secrets config) = ''''"
  shows "Connect Join NewConnector (Inr config) w =
           (w, Inl (ConfigError ''MotherDuck Token is missing for motherduck connection''))"
  using assms md_not_quoted[OF assms(1)] by (simp add: Connect_def Let_def)

theorem remote_without_token_rejected_witness:
  "HasPrefix (TrimSpace '' md:sample '') ''md:''
   \<and> Connect joinSlash openRecorded
        (Inr \<lparr>Path = '' md:sample '', InitSql = '''', Secrets = \<lparr>MotherDuckToken = ''''\<rparr>\<rparr>) [''other.db'']
      = ([''other.db''], Inl (ConfigError ''MotherDuck Token is missing for motherduck connection''))"
  using HasPrefix_trim_md_sample
    remote_without_token_rejected[of "\<lparr>Path = '' md:sample '', InitSql = '''', Secrets = \<lparr>MotherDuckToken = ''''\<rparr>\<rparr>"
      joinSlash openRecorded "[''other.db'']"]
  by simp


section \<open>Decimal text\<close>

lemma digitChar_all:
  "list_all (\<lambda>d. (of_char (digitChar d) :: nat) - 48 = d \<and> isDigit (digitChar d)) [0..<10]"
  by (simp add: upt_rec digitChar_def isDigit_def)

lemma digitChar_value: "d < 10 \<Longrightarrow> (of_char (digitChar d) :: nat) - 48 = d \<and> isDigit (digitChar d)"
proof -
  assume "d < 10"
  then have "d \<in> set [0..<10]" by simp
  then show ?thesis using digitChar_all unfolding list_all_iff by blast
qed

lemma digitsValue_append: "digitsValue n (xs @ [c]) = digitsValue n xs * 10 + ((of_char c :: nat) - 48)"
  by (simp add: digitsValue_def)

lemma showNat_digits: "list_all isDigit (showNat n) \<and> showNat n \<noteq> [] \<and> digitsValue 0 (showNat n) = n"
proof (induction n rule: showNat.induct)
  case (1 n)
  show ?case
  proof (cases "n < 10")
    case True
    then show ?thesis
      using digitChar_value[of n] by (subst (1 2 3) showNat.simps) (simp add: digitsValue_def)
  next
    case False
    then have ih: "list_all isDigit (showNat (n div 10))" "digitsValue 0 (showNat (n div 10)) = n div 10"
      using 1 by auto
    have d: "(of_char (digitChar (n mod 10)) :: nat) - 48 = n mod 10" "isDigit (digitChar (n mod 10))"
      using digitChar_value[of "n mod 10"] by auto
    show ?thesis
      using False ih d by (subst (1 2 3) showNat.simps) (simp add: digitsValue_append)
  qed
qed

lemma showNat_no_sign: "hd (showNat n) \<noteq> CHR ''-'' \<and> hd (showNat n) \<noteq> CHR ''+''"
proof -
  have "list_all isDigit (showNat n)" "showNat n \<noteq> []" using showNat_digits by auto
  then have "isDigit (hd (showNat n))" by (cases "showNat n") auto
  then show ?thesis by (auto simp: isDigit_def)
qed

lemma bigIntString_denotes: "isDecimalInteger (bigIntString i) \<and> decimalValue (bigIntString i) = i"
proof (cases "i < 0")
  case True
  then show ?thesis
    using showNat_digits[of "nat (- i)"]
    by (simp add: bigIntString_def isDecimalInteger_def decimalValue_def)
next
  case False
  obtain c cs where s: "showNat (nat i) = c # cs"
    using showNat_digits[of "nat i"] by (cases "showNat (nat i)") auto
  have ns: "c \<noteq> CHR ''-''" "c \<noteq> CHR ''+''" using showNat_no_sign[of "nat i"] s by auto
  show ?thesis
    using False showNat_digits[of "nat i"] s ns
    by (simp add: bigIntString_def isDecimalInteger_def decimalValue_def)
qed

section \<open>Parsing integers\<close>

lemma digitOf_digit: "isDigit c \<Longrightarrow> digitOf c = Some ((of_char c :: nat) - 48) \<and> (of_char c :: nat) - 48 < 10"
  by (auto simp: isDigit_def digitOf_def Let_def)

lemma digitOf_other: "\<not> isDigit c \<Longrightarrow> digitOf c = None \<or> (\<exists>d\<ge>10. digitOf c = Some d)"
  by (auto simp: isDigit_def digitOf_def Let_def)

lemma digitsValue_Cons: "digitsValue n (c # cs) = digitsValue (n * 10 + ((of_char c :: nat) - 48)) cs"
  by (simp add: digitsValue_def)

lemma digitsValue_ge: "n \<le> digitsValue n ds"
proof (induction ds arbitrary: n)
  case Nil
  show ?case by (simp add: digitsValue_def)
next
  case (Cons c cs)
  have "n \<le> n * 10 + ((of_char c :: nat) - 48)" by simp
  also have "\<dots> \<le> digitsValue (n * 10 + ((of_char c :: nat) - 48)) cs" by (rule Cons.IH)
  finally show ?case by (simp add: digitsValue_Cons)
qed

lemma parseUintLoop_digits:
  "list_all isDigit ds \<Longrightarrow> n \<le> 65535 \<Longrightarrow>
   parseUintLoop 10 65535 n ds =
     (if digitsValue n ds \<le> 65535 then (digitsValue n ds, None) else (65535, Some ErrRange))"
proof (induction ds arbitrary: n)
  case Nil
  then show ?case by (simp add: digitsValue_def)
next
  case (Cons c cs)
  let ?n1 = "n * 10 + ((of_char c :: nat) - 48)"
  have d: "digitOf c = Some ((of_char c :: nat) - 48)" "(of_char c :: nat) - 48 < 10"
    using Cons.prems(1) digitOf_digit[of c] by auto
  have cut: "\<not> n \<ge> maxUint64 div 10 + 1" "\<not> ?n1 > maxUint64 \<or> ?n1 \<le> 65535"
    using Cons.prems(2) d(2) by (auto simp: maxUint64_def)
  show ?case
  proof (cases "?n1 > 65535")
    case True
    then have "digitsValue ?n1 cs > 65535" using digitsValue_ge[of ?n1 cs] by linarith
    then show ?thesis using True d cut(1) by (simp add: digitsValue_Cons)
  next
    case False
    then have le: "?n1 \<le> 65535" by simp
    have m: "\<not> ?n1 > maxUint64" using le by (simp add: maxUint64_def)
    have "parseUintLoop 10 65535 ?n1 cs =
      (if digitsValue ?n1 cs \<le> 65535 then (digitsValue ?n1 cs, None) else (65535, Some ErrRange))"
      using Cons.IH[OF _ le] Cons.prems(1) by simp
    then show ?thesis using False d cut(1) m by (simp add: digitsValue_Cons)
  qed
qed

lemma parseUintLoop_not_digits:
  "\<not> list_all isDigit ds \<Longrightarrow> n \<le> 65535 \<Longrightarrow>
   parseUintLoop 10 65535 n ds = (0, Some ErrSyntax) \<or> parseUintLoop 10 65535 n ds = (65535, Some ErrRange)"
proof (induction ds arbitrary: n)
  case Nil
  then show ?case by simp
next
  case (Cons c cs)
  show ?case
  proof (cases "isDigit c")
    case False
    then show ?thesis using digitOf_other[of c] by auto
  next
    case True
    let ?n1 = "n * 10 + ((of_char c :: nat) - 48)"
    have d: "digitOf c = Some ((of_char c :: nat) - 48)" "(of_char c :: nat) - 48 < 10"
      using True digitOf_digit[of c] by auto
    have rest: "\<not> list_all isDigit cs" using Cons.prems(1) True by simp
    show ?thesis
    proof (cases "?n1 > 65535")
      case True
      then show ?thesis using d by simp
    next
      case False
      then have le: "?n1 \<le> 65535" by simp
      have m: "\<not> ?n1 > maxUint64" "\<not> n \<ge> maxUint64 div 10 + 1"
        using le Cons.prems(2) by (simp_all add: maxUint64_def)
      show ?thesis using Cons.IH[OF rest le] d False m by simp
    qed
  qed
qed

lemma ParseUint_digits:
  "ds \<noteq> [] \<Longrightarrow> list_all isDigit ds \<Longrightarrow>
   ParseUint ds 10 16 =
     (if digitsValue 0 ds \<le> 65535 then (digitsValue 0 ds, None) else (65535, Some ErrRange))"
  using parseUintLoop_digits[of ds 0] by (simp add: ParseUint_def)

lemma ParseUint_not_digits:
  "ds = [] \<or> \<not> list_all isDigit ds \<Longrightarrow>
   ParseUint ds 10 16 = (0, Some ErrSyntax) \<or> ParseUint ds 10 16 = (65535, Some ErrRange)"
  using parseUintLoop_not_digits[of ds 0] by (auto simp: ParseUint_def)

lemma ParseInt_decimal:
  assumes "isDecimalInteger s"
  shows "ParseInt s 10 16 =
     (if - 32768 \<le> decimalValue s \<and> decimalValue s \<le> 32767 then (decimalValue s, None)
      else (if decimalValue s < 0 then - 32768 else 32767, Some ErrRange))"
proof (cases s)
  case Nil
  then show ?thesis using assms by (simp add: isDecimalInteger_def)
next
  case (Cons c cs)
  show ?thesis
  proof (cases "c = CHR ''-'' \<or> c = CHR ''+''")
    case True
    then have ds: "cs \<noteq> []" "list_all isDigit cs"
      using assms Cons by (auto simp: isDecimalInteger_def)
    note u = ParseUint_digits[OF ds]
    show ?thesis
    proof (cases "digitsValue 0 cs \<le> 65535")
      case le: True
      then show ?thesis using True Cons u
        by (auto simp: ParseInt_def decimalValue_def Let_def)
    next
      case gt: False
      then show ?thesis using True Cons u
        by (auto simp: ParseInt_def decimalValue_def Let_def)
    qed
  next
    case False
    then have ds: "c # cs \<noteq> []" "list_all isDigit (c # cs)"
      using assms Cons by (auto simp: isDecimalInteger_def)
    note u = ParseUint_digits[OF ds]
    show ?thesis
    proof (cases "digitsValue 0 (c # cs) \<le> 65535")
      case le: True
      then show ?thesis using False Cons u
        by (auto simp: ParseInt_def decimalValue_def Let_def)
    next
      case gt: False
      then show ?thesis using False Cons u
        by (auto simp: ParseInt_def decimalValue_def Let_def)
    qed
  qed
qed

lemma ParseInt_not_decimal:
  assumes "\<not> isDecimalInteger s"
  shows "\<exists>v e. ParseInt s 10 16 = (v, Some e)"
proof (cases s)
  case Nil
  then show ?thesis by (simp add: ParseInt_def)
next
  case (Cons c cs)
  show ?thesis
  proof (cases "c = CHR ''-'' \<or> c = CHR ''+''")
    case True
    then have "cs = [] \<or> \<not> list_all isDigit cs"
      using assms Cons by (auto simp: isDecimalInteger_def)
    from ParseUint_not_digits[OF this] show ?thesis
      using True Cons by (auto simp: ParseInt_def Let_def)
  next
    case False
    then have "c # cs = [] \<or> \<not> list_all isDigit (c # cs)"
      using assms Cons by (auto simp: isDecimalInteger_def)
    from ParseUint_not_digits[OF this] show ?thesis
      using False Cons by (auto simp: ParseInt_def Let_def)
  qed
qed

lemma sint_int16: "- 32768 \<le> v \<Longrightarrow> v \<le> 32767 \<Longrightarrow> sint (word_of_int v :: 16 word) = v"
  by (simp add: sint_sbintrunc' signed_take_bit_int_eq_self)

lemma intReplaceFunc_nil: "intReplaceFunc None = Inr NilValue"
  by (simp add: intReplaceFunc_def)

lemma intReplaceFunc_parses:
  "isDecimalInteger s \<Longrightarrow> - 32768 \<le> decimalValue s \<Longrightarrow> decimalValue s \<le> 32767 \<Longrightarrow>
   intReplaceFunc (Some s) = Inr (Int16Ptr (Some (word_of_int (decimalValue s))))"
  using ParseInt_decimal[of s] by (simp add: intReplaceFunc_def)

lemma intReplaceFunc_fails:
  "\<not> (isDecimalInteger s \<and> - 32768 \<le> decimalValue s \<and> decimalValue s \<le> 32767) \<Longrightarrow>
   \<exists>e. intReplaceFunc (Some s) = Inl (NumError e)"
proof (cases "isDecimalInteger s")
  case True
  assume "\<not> (isDecimalInteger s \<and> - 32768 \<le> decimalValue s \<and> decimalValue s \<le> 32767)"
  then show ?thesis using True ParseInt_decimal[OF True] by (auto simp: intReplaceFunc_def)
next
  case False
  from ParseInt_not_decimal[OF this] show ?thesis by (auto simp: intReplaceFunc_def)
qed

lemma intReplaceFunc_32000: "intReplaceFunc (Some ''32000'') = Inr (Int16Ptr (Some 32000))"
  by (simp add: intReplaceFunc_def ParseInt_def ParseUint_def digitOf_def maxUint64_def Let_def)

lemma intReplaceFunc_abc: "intReplaceFunc (Some ''abc'') = Inl (NumError ErrSyntax)"
  by (simp add: intReplaceFunc_def ParseInt_def ParseUint_def digitOf_def lower_def maxUint64_def Let_def)

lemma intReplaceFunc_40000: "intReplaceFunc (Some ''40000'') = Inl (NumError ErrRange)"
  by (simp add: intReplaceFunc_def ParseInt_def ParseUint_def digitOf_def maxUint64_def Let_def)

lemma intReplaceFunc_neg: "intReplaceFunc (Some ''-32768'') = Inr (Int16Ptr (Some (- 32768)))"
  by (simp add: intReplaceFunc_def ParseInt_def ParseUint_def digitOf_def maxUint64_def Let_def)

section \<open>The regex of the decimal family\<close>

lemma matchesPrefix_nullable: "nullable r \<Longrightarrow> matchesPrefix r xs"
  by (cases xs) auto

lemma matchesPrefix_Alt: "matchesPrefix (Alt r s) xs = (matchesPrefix r xs \<or> matchesPrefix s xs)"
  by (induction xs arbitrary: r s) auto

lemma matchesPrefix_Concat_Void: "matchesPrefix (Concat Void r) xs = False"
  by (induction xs) auto

lemma matchesPrefix_Concat_Eps: "matchesPrefix (Concat Eps r) xs = matchesPrefix r xs"
  by (cases xs) (auto simp: matchesPrefix_Alt matchesPrefix_Concat_Void)

lemma matchesPrefix_Concat_Lit:
  "matchesPrefix (Concat (Lit c) r) xs = (case xs of [] \<Rightarrow> False | x # xs' \<Rightarrow> x = c \<and> matchesPrefix r xs')"
  by (cases xs) (auto simp: matchesPrefix_Concat_Eps matchesPrefix_Concat_Void)

lemma MustCompile_decimal:
  "MustCompile ''DECIMAL.*'' =
     Concat (Lit CHR ''D'') (Concat (Lit CHR ''E'') (Concat (Lit CHR ''C'') (Concat (Lit CHR ''I'')
       (Concat (Lit CHR ''M'') (Concat (Lit CHR ''A'') (Concat (Lit CHR ''L'')
         (Concat (Star AnyCharNotNL) Eps)))))))"
  by (simp add: atom_def)

lemma matchesPrefix_decimal: "matchesPrefix (MustCompile ''DECIMAL.*'') xs = (\<exists>b. xs = ''DECIMAL'' @ b)"
  unfolding MustCompile_decimal
  by (auto simp: matchesPrefix_Concat_Lit matchesPrefix_nullable split: list.splits)

lemma MatchString_somewhere: "MatchString r n = (\<exists>a b. n = a @ b \<and> matchesPrefix r b)"
proof (induction n)
  case Nil
  show ?case by simp
next
  case (Cons c cs)
  show ?case
  proof
    assume "MatchString r (c # cs)"
    then consider "matchesPrefix r (c # cs)" | "MatchString r cs" by auto
    then show "\<exists>a b. c # cs = a @ b \<and> matchesPrefix r b"
    proof cases
      case 1
      then have "c # cs = [] @ (c # cs) \<and> matchesPrefix r (c # cs)" by simp
      then show ?thesis by blast
    next
      case 2
      then obtain a b where "cs = a @ b" "matchesPrefix r b" using Cons.IH by blast
      then have "c # cs = (c # a) @ b \<and> matchesPrefix r b" by simp
      then show ?thesis by blast
    qed
  next
    assume "\<exists>a b. c # cs = a @ b \<and> matchesPrefix r b"
    then obtain a b where ab: "c # cs = a @ b" "matchesPrefix r b" by blast
    show "MatchString r (c # cs)"
    proof (cases a)
      case Nil
      then have "matchesPrefix r (c # cs)" using ab by simp
      then show ?thesis by (simp del: matchesPrefix.simps)
    next
      case (Cons x a')
      then have "cs = a' @ b" using ab by simp
      then have "MatchString r cs" using Cons.IH ab(2) by blast
      then show ?thesis by simp
    qed
  qed
qed

lemma MatchString_decimal: "MatchString (MustCompile ''DECIMAL.*'') n = (\<exists>a b. n = a @ ''DECIMAL'' @ b)"
  by (simp add: MatchString_somewhere matchesPrefix_decimal del: MustCompile.simps) blast

section \<open>The converter list\<close>

lemma find_exact_then_regex:
  "length (filter (\<lambda>c. P c \<or> Q c) xs) \<le> 1 \<Longrightarrow>
   (case find P xs of Some c \<Rightarrow> Some c | None \<Rightarrow> find Q xs) = find (\<lambda>c. P c \<or> Q c) xs"
proof (induction xs)
  case Nil
  show ?case by simp
next
  case (Cons x xs)
  show ?case
  proof (cases "P x \<or> Q x")
    case True
    then have "filter (\<lambda>c. P c \<or> Q c) xs = []" using Cons.prems by simp
    then have "\<forall>c\<in>set xs. \<not> P c" by (auto simp: filter_empty_conv)
    then have "find P xs = None" by (simp add: find_None_iff)
    then show ?thesis using True by auto
  next
    case False
    then show ?thesis using Cons by (auto split: option.splits)
  qed
qed

lemma find_unique:
  "length (filter R xs) \<le> 1 \<Longrightarrow> find R xs = Some c \<Longrightarrow> filter R xs = [c]"
proof (induction xs)
  case Nil
  then show ?case by simp
next
  case (Cons x xs)
  then show ?case by (cases "R x") auto
qed

lemma converter_keys:
  "map (\<lambda>c. (InputTypeName c, InputTypeRegex c)) (GetConverterList ParseFloat Float64) =
     [(''HUGEINT'', None), ('''', Some (MustCompile ''DECIMAL.*'')), (''FLOAT8'', None),
      (''FLOAT32'', None), (''FLOAT'', None), (''INT2'', None), (''INT8'', None),
      (''TINYINT'', None), (''INT16'', None), (''SMALLINT'', None)]"
  by (simp add: GetConverterList_def bigIntConverters_def converters_def strConverters_def
      stringConverters_def ToConverters_def ToConverter_def del: MustCompile.simps)

lemma applies_key: "applies c n = keyApplies n (InputTypeName c, InputTypeRegex c)"
  by (simp add: applies_def exactMatch_def regexMatch_def keyApplies_def)

lemma decimal_not_exact:
  "MatchString (MustCompile ''DECIMAL.*'') n \<Longrightarrow>
   n \<notin> {''HUGEINT'', '''', ''FLOAT8'', ''FLOAT32'', ''FLOAT'', ''INT2'', ''INT8'', ''TINYINT'', ''INT16'', ''SMALLINT''}"
proof -
  have "list_all (\<lambda>e. \<not> MatchString (MustCompile ''DECIMAL.*'') e)
          [''HUGEINT'', '''', ''FLOAT8'', ''FLOAT32'', ''FLOAT'', ''INT2'', ''INT8'', ''TINYINT'', ''INT16'', ''SMALLINT'']"
    by (simp add: atom_def)
  then show "MatchString (MustCompile ''DECIMAL.*'') n \<Longrightarrow> ?thesis"
    by (auto simp del: MustCompile.simps MatchString.simps)
qed

lemma applicable_at_most_one:
  "length (filter (\<lambda>c. applies c n) (GetConverterList ParseFloat Float64)) \<le> 1"
proof -
  have "length (filter (\<lambda>c. applies c n) (GetConverterList ParseFloat Float64))
      = length (filter (keyApplies n) (map (\<lambda>c. (InputTypeName c, InputTypeRegex c)) (GetConverterList ParseFloat Float64)))"
    by (simp add: filter_map comp_def applies_key)
  also have "\<dots> \<le> 1"
  proof (cases "MatchString (MustCompile ''DECIMAL.*'') n")
    case True
    from decimal_not_exact[OF True] True show ?thesis
      unfolding converter_keys by (auto simp add: keyApplies_def simp del: MustCompile.simps)
  next
    case False
    then show ?thesis
      unfolding converter_keys by (auto simp add: keyApplies_def simp del: MustCompile.simps)
  qed
  finally show ?thesis .
qed

lemma exact_iff:
  "(\<exists>c\<in>set (GetConverterList ParseFloat Float64). exactMatch c n) =
   (n \<in> {''HUGEINT'', '''', ''FLOAT8'', ''FLOAT32'', ''FLOAT'', ''INT2'', ''INT8'', ''TINYINT'', ''INT16'', ''SMALLINT''})"
proof -
  have "(\<exists>c\<in>set (GetConverterList ParseFloat Float64). exactMatch c n)
      = (\<exists>k\<in>set (map (\<lambda>c. (InputTypeName c, InputTypeRegex c)) (GetConverterList ParseFloat Float64)). fst k = n)"
    by (simp add: exactMatch_def)
  also have "\<dots> = (n \<in> {''HUGEINT'', '''', ''FLOAT8'', ''FLOAT32'', ''FLOAT'', ''INT2'', ''INT8'', ''TINYINT'', ''INT16'', ''SMALLINT''})"
    unfolding converter_keys by auto
  finally show ?thesis .
qed

lemma regex_iff:
  "(\<exists>c\<in>set (GetConverterList ParseFloat Float64). regexMatch c n) = MatchString (MustCompile ''DECIMAL.*'') n"
proof -
  have "(\<exists>c\<in>set (GetConverterList ParseFloat Float64). regexMatch c n)
      = (\<exists>k\<in>set (map (\<lambda>c. (InputTypeName c, InputTypeRegex c)) (GetConverterList ParseFloat Float64)).
           case snd k of None \<Rightarrow> False | Some r \<Rightarrow> MatchString r n)"
    by (simp add: regexMatch_def)
  also have "\<dots> = MatchString (MustCompile ''DECIMAL.*'') n"
    unfolding converter_keys by (simp del: MustCompile.simps)
  finally show ?thesis .
qed

lemma applies_decimal_example:
  "map Name (filter (\<lambda>c. applies c ''DECIMAL(18,3)'') (GetConverterList constFloat zeroFloat))
     = [''NULLABLE decimal converter'']"
  by (simp add: GetConverterList_def bigIntConverters_def converters_def strConverters_def
      stringConverters_def ToConverters_def ToConverter_def applies_def exactMatch_def
      regexMatch_def atom_def)

lemma applies_smallint_example:
  "map Name (filter (\<lambda>c. applies c ''SMALLINT'') (GetConverterList constFloat zeroFloat))
     = [''handle SMALLINT'']"
  by (simp add: GetConverterList_def bigIntConverters_def converters_def strConverters_def
      stringConverters_def ToConverters_def ToConverter_def applies_def exactMatch_def
      regexMatch_def atom_def)

lemma applies_varchar_example:
  "filter (\<lambda>c. applies c ''VARCHAR'') (GetConverterList constFloat zeroFloat) = []"
  by (simp add: GetConverterList_def bigIntConverters_def converters_def strConverters_def
      stringConverters_def ToConverters_def ToConverter_def applies_def exactMatch_def
      regexMatch_def atom_def)

lemma find_via_filter: "find P xs = (case filter P xs of [] \<Rightarrow> None | x # _ \<Rightarrow> Some x)"
  by (induction xs) auto

section \<open>Huge integers\<close>

lemma bigIntString_big: "bigIntString 9223372036854775809 = ''9223372036854775809''"
  by (simp add: bigIntString_def showNat.simps digitChar_def)

section \<open>Narrow integers\<close>

lemma narrow_entry:
  assumes "sc \<in> set (stringConverters ParseFloat)"
    and "scInputTypeName sc \<in> {''INT2'', ''INT8'', ''TINYINT'', ''INT16'', ''SMALLINT''}"
  shows "OutputFieldType sc = FieldTypeNullableInt16 \<and> ReplaceFunc sc = intReplaceFunc \<and> ConversionFunc sc = Inr"
  using assms by (auto simp: stringConverters_def)

lemma narrow_names_present:
  "list_all (\<lambda>n. \<exists>sc\<in>set (stringConverters ParseFloat). scInputTypeName sc = n)
     [''INT2'', ''INT8'', ''TINYINT'', ''INT16'', ''SMALLINT'']"
  by (simp add: stringConverters_def)

lemma ToConverter_listed:
  "sc \<in> set (stringConverters ParseFloat) \<Longrightarrow> ToConverter sc \<in> set (GetConverterList ParseFloat Float64)"
  by (simp add: GetConverterList_def strConverters_def ToConverters_def)

lemma int2Entry_listed: "int2Entry \<in> set (stringConverters constFloat)"
  by (simp add: stringConverters_def int2Entry_def)

lemma int2Entry_name: "scInputTypeName int2Entry \<in> {''INT2'', ''INT8'', ''TINYINT'', ''INT16'', ''SMALLINT''}"
  by (simp add: int2Entry_def)

text \<open>
  C3. For every native type name, at most one converter of the list applies, by its type
  name or by its regex. So the policy (an exact type-name match wins, else the first regex
  match, else no conversion) picks the one converter that applies, the same one that a
  search of the list in its order finds first, and picks none exactly when no converter
  applies. No type name is matched both by a type name of the list and by a regex of the
  list, and a regex of the list matches exactly the names that contain \<open>DECIMAL\<close>.
\<close>

theorem converter_selection_unique:
  "length (filter (\<lambda>c. applies c typeName) (GetConverterList ParseFloat Float64)) \<le> 1
   \<and> selectRule (GetConverterList ParseFloat Float64) typeName
       = find (\<lambda>c. applies c typeName) (GetConverterList ParseFloat Float64)
   \<and> (\<forall>c. selectRule (GetConverterList ParseFloat Float64) typeName = Some c \<longrightarrow>
         filter (\<lambda>c. applies c typeName) (GetConverterList ParseFloat Float64) = [c])
   \<and> (selectRule (GetConverterList ParseFloat Float64) typeName = None \<longleftrightarrow>
         (\<forall>c\<in>set (GetConverterList ParseFloat Float64). \<not> applies c typeName))
   \<and> \<not> ((\<exists>c\<in>set (GetConverterList ParseFloat Float64). exactMatch c typeName)
        \<and> (\<exists>c\<in>set (GetConverterList ParseFloat Float64). regexMatch c typeName))
   \<and> ((\<exists>c\<in>set (GetConverterList ParseFloat Float64). regexMatch c typeName) \<longleftrightarrow>
         (\<exists>a b. typeName = a @ ''DECIMAL'' @ b))"
proof -
  let ?cs = "GetConverterList ParseFloat Float64"
  have one: "length (filter (\<lambda>c. applies c typeName) ?cs) \<le> 1"
    by (rule applicable_at_most_one)
  have sel: "selectRule ?cs typeName = find (\<lambda>c. applies c typeName) ?cs"
    using find_exact_then_regex[of "\<lambda>c. exactMatch c typeName" "\<lambda>c. regexMatch c typeName" ?cs] one
    by (simp add: selectRule_def applies_def)
  have uniq: "\<forall>c. selectRule ?cs typeName = Some c \<longrightarrow> filter (\<lambda>c. applies c typeName) ?cs = [c]"
    using find_unique[OF one] sel by simp
  have none: "selectRule ?cs typeName = None \<longleftrightarrow> (\<forall>c\<in>set ?cs. \<not> applies c typeName)"
    unfolding sel by (auto simp: find_None_iff)
  have disj: "\<not> ((\<exists>c\<in>set ?cs. exactMatch c typeName) \<and> (\<exists>c\<in>set ?cs. regexMatch c typeName))"
  proof (rule notI, elim conjE)
    assume e: "\<exists>c\<in>set ?cs. exactMatch c typeName" and r: "\<exists>c\<in>set ?cs. regexMatch c typeName"
    from r have m: "MatchString (MustCompile ''DECIMAL.*'') typeName" by (simp only: regex_iff)
    show False using decimal_not_exact[OF m] e[unfolded exact_iff] by (rule notE)
  qed
  have fam: "(\<exists>c\<in>set ?cs. regexMatch c typeName) \<longleftrightarrow> (\<exists>a b. typeName = a @ ''DECIMAL'' @ b)"
    unfolding regex_iff by (rule MatchString_decimal)
  show ?thesis using one sel uniq none disj fam by (intro conjI) assumption+
qed

theorem converter_selection_unique_witness:
  "map_option Name (selectRule (GetConverterList constFloat zeroFloat) ''DECIMAL(18,3)'')
     = Some ''NULLABLE decimal converter''
   \<and> map_option Name (selectRule (GetConverterList constFloat zeroFloat) ''SMALLINT'')
     = Some ''handle SMALLINT''
   \<and> selectRule (GetConverterList constFloat zeroFloat) ''VARCHAR'' = None"
proof -
  note d = converter_selection_unique[of "''DECIMAL(18,3)''" constFloat zeroFloat]
  note s = converter_selection_unique[of "''SMALLINT''" constFloat zeroFloat]
  note v = converter_selection_unique[of "''VARCHAR''" constFloat zeroFloat]
  have sel: "\<And>n. selectRule (GetConverterList constFloat zeroFloat) n
      = find (\<lambda>c. applies c n) (GetConverterList constFloat zeroFloat)"
    using converter_selection_unique[of _ constFloat zeroFloat] by (rule conjunct1[OF conjunct2])
  note fh = find_via_filter
  have 1: "map_option Name (selectRule (GetConverterList constFloat zeroFloat) ''DECIMAL(18,3)'')
     = Some ''NULLABLE decimal converter''"
    using applies_decimal_example unfolding sel fh by (auto split: list.splits)
  have 2: "map_option Name (selectRule (GetConverterList constFloat zeroFloat) ''SMALLINT'')
     = Some ''handle SMALLINT''"
    using applies_smallint_example unfolding sel fh by (auto split: list.splits)
  have 3: "selectRule (GetConverterList constFloat zeroFloat) ''VARCHAR'' = None"
    unfolding sel fh by (simp only: applies_varchar_example list.case)
  show ?thesis using 1 2 3 by (intro conjI) assumption+
qed

text \<open>
  C4. The list has a converter for \<open>HUGEINT\<close>, and every such converter has the field type
  nullable string, returns the nil string pointer for a value that is not valid or whose
  integer is nil (so for a scanned \<open>nil\<close>), and returns for a valid integer (so for a
  scanned integer) the string of its decimal digits: a decimal integer in the sense of
  \<open>isDecimalInteger\<close> whose value is the integer itself, however large.
\<close>

theorem hugeint_converter:
  "(\<exists>c\<in>set (GetConverterList ParseFloat Float64). InputTypeName c = ''HUGEINT'')
   \<and> (\<forall>c\<in>set (GetConverterList ParseFloat Float64). InputTypeName c = ''HUGEINT'' \<longrightarrow>
         FieldType c = FieldTypeNullableString
       \<and> ConverterFunc c (ScanNullBigInt \<lparr>BigInt = b, Valid = False\<rparr>) = Inr (StringPtr None)
       \<and> ConverterFunc c (ScanNullBigInt \<lparr>BigInt = None, Valid = v\<rparr>) = Inr (StringPtr None)
       \<and> ConverterFunc c (ScanNullBigInt \<lparr>BigInt = Some i, Valid = True\<rparr>)
            = Inr (StringPtr (Some (bigIntString i)))
       \<and> ConverterFunc c (ScanNullBigInt (fst (NullBigInt_Scan DriverNil))) = Inr (StringPtr None)
       \<and> ConverterFunc c (ScanNullBigInt (fst (NullBigInt_Scan (DriverBigInt (Some i)))))
            = Inr (StringPtr (Some (bigIntString i))))
   \<and> isDecimalInteger (bigIntString i) \<and> decimalValue (bigIntString i) = i"
proof -
  have ex: "\<exists>c\<in>set (GetConverterList ParseFloat Float64). InputTypeName c = ''HUGEINT''"
    by (simp add: GetConverterList_def bigIntConverters_def)
  have all: "\<forall>c\<in>set (GetConverterList ParseFloat Float64). InputTypeName c = ''HUGEINT'' \<longrightarrow>
         FieldType c = FieldTypeNullableString
       \<and> ConverterFunc c (ScanNullBigInt \<lparr>BigInt = b, Valid = False\<rparr>) = Inr (StringPtr None)
       \<and> ConverterFunc c (ScanNullBigInt \<lparr>BigInt = None, Valid = v\<rparr>) = Inr (StringPtr None)
       \<and> ConverterFunc c (ScanNullBigInt \<lparr>BigInt = Some i, Valid = True\<rparr>)
            = Inr (StringPtr (Some (bigIntString i)))
       \<and> ConverterFunc c (ScanNullBigInt (fst (NullBigInt_Scan DriverNil))) = Inr (StringPtr None)
       \<and> ConverterFunc c (ScanNullBigInt (fst (NullBigInt_Scan (DriverBigInt (Some i)))))
            = Inr (StringPtr (Some (bigIntString i)))"
    by (auto simp add: NullBigInt_Scan_def GetConverterList_def bigIntConverters_def converters_def strConverters_def
      stringConverters_def ToConverters_def ToConverter_def simp del: MustCompile.simps)
  show ?thesis using ex all bigIntString_denotes[of i] by (intro conjI) (assumption | simp)+
qed

theorem hugeint_converter_witness:
  "\<exists>c\<in>set (GetConverterList constFloat zeroFloat). InputTypeName c = ''HUGEINT''
     \<and> FieldType c = FieldTypeNullableString
     \<and> ConverterFunc c (ScanNullBigInt \<lparr>BigInt = None, Valid = False\<rparr>) = Inr (StringPtr None)
     \<and> ConverterFunc c (ScanNullBigInt (fst (NullBigInt_Scan DriverNil))) = Inr (StringPtr None)
     \<and> ConverterFunc c (ScanNullBigInt (fst (NullBigInt_Scan (DriverBigInt (Some 9223372036854775809)))))
          = Inr (StringPtr (Some ''9223372036854775809''))"
proof -
  note t = hugeint_converter[of constFloat zeroFloat None False 9223372036854775809]
  from t obtain c where c: "c \<in> set (GetConverterList constFloat zeroFloat)" "InputTypeName c = ''HUGEINT''"
    by (elim conjE bexE)
  from t have "\<forall>c\<in>set (GetConverterList constFloat zeroFloat). InputTypeName c = ''HUGEINT'' \<longrightarrow>
         FieldType c = FieldTypeNullableString
       \<and> ConverterFunc c (ScanNullBigInt \<lparr>BigInt = None, Valid = False\<rparr>) = Inr (StringPtr None)
       \<and> ConverterFunc c (ScanNullBigInt \<lparr>BigInt = None, Valid = False\<rparr>) = Inr (StringPtr None)
       \<and> ConverterFunc c (ScanNullBigInt \<lparr>BigInt = Some 9223372036854775809, Valid = True\<rparr>)
            = Inr (StringPtr (Some (bigIntString 9223372036854775809)))
       \<and> ConverterFunc c (ScanNullBigInt (fst (NullBigInt_Scan DriverNil))) = Inr (StringPtr None)
       \<and> ConverterFunc c (ScanNullBigInt (fst (NullBigInt_Scan (DriverBigInt (Some 9223372036854775809)))))
            = Inr (StringPtr (Some (bigIntString 9223372036854775809)))"
    by (elim conjE)
  from this[rule_format, OF c] c show ?thesis
    by (intro bexI[of _ c]) (simp_all add: bigIntString_big)
qed

text \<open>
  C5. The string converters for \<open>INT2\<close>, \<open>INT8\<close>, \<open>TINYINT\<close>, \<open>INT16\<close> and \<open>SMALLINT\<close> are
  in the list (each of the five names has one) with the field type nullable int16, and
  their function is their replace function on the scanned text. That function returns nil
  for nil; for a text that is a base-10 integer between -32768 and 32767 it returns a
  pointer to the int16 of that value; for every other text it returns the parse error,
  not a value.
\<close>

theorem narrow_integer_converters:
  assumes "sc \<in> set (stringConverters ParseFloat)"
    and "scInputTypeName sc \<in> {''INT2'', ''INT8'', ''TINYINT'', ''INT16'', ''SMALLINT''}"
  shows "list_all (\<lambda>n. \<exists>sc\<in>set (stringConverters ParseFloat). scInputTypeName sc = n)
           [''INT2'', ''INT8'', ''TINYINT'', ''INT16'', ''SMALLINT'']
       \<and> OutputFieldType sc = FieldTypeNullableInt16
       \<and> ToConverter sc \<in> set (GetConverterList ParseFloat Float64)
       \<and> InputTypeName (ToConverter sc) = scInputTypeName sc
       \<and> FieldType (ToConverter sc) = FieldTypeNullableInt16
       \<and> ConverterFunc (ToConverter sc) (ScanNullString inp) = ReplaceFunc sc inp
       \<and> ReplaceFunc sc None = Inr NilValue
       \<and> (isDecimalInteger s \<and> - 32768 \<le> decimalValue s \<and> decimalValue s \<le> 32767 \<longrightarrow>
            ReplaceFunc sc (Some s) = Inr (Int16Ptr (Some (word_of_int (decimalValue s))))
          \<and> sint (word_of_int (decimalValue s) :: int16) = decimalValue s)
       \<and> (\<not> (isDecimalInteger s \<and> - 32768 \<le> decimalValue s \<and> decimalValue s \<le> 32767) \<longrightarrow>
            (\<exists>e. ReplaceFunc sc (Some s) = Inl (NumError e)))"
proof -
  note e = narrow_entry[OF assms]
  have 0: "list_all (\<lambda>n. \<exists>sc\<in>set (stringConverters ParseFloat). scInputTypeName sc = n)
           [''INT2'', ''INT8'', ''TINYINT'', ''INT16'', ''SMALLINT'']"
    by (rule narrow_names_present)
  have 1: "OutputFieldType sc = FieldTypeNullableInt16" using e by simp
  have 2: "ToConverter sc \<in> set (GetConverterList ParseFloat Float64)"
    by (rule ToConverter_listed[OF assms(1)])
  have 3: "InputTypeName (ToConverter sc) = scInputTypeName sc" by (simp add: ToConverter_def)
  have 4: "FieldType (ToConverter sc) = FieldTypeNullableInt16" using e by (simp add: ToConverter_def)
  have 5: "ConverterFunc (ToConverter sc) (ScanNullString inp) = ReplaceFunc sc inp"
    using e by (simp add: ToConverter_def)
  have 6: "ReplaceFunc sc None = Inr NilValue" using e by (simp add: intReplaceFunc_nil)
  have 7: "isDecimalInteger s \<and> - 32768 \<le> decimalValue s \<and> decimalValue s \<le> 32767 \<longrightarrow>
            ReplaceFunc sc (Some s) = Inr (Int16Ptr (Some (word_of_int (decimalValue s))))
          \<and> sint (word_of_int (decimalValue s) :: int16) = decimalValue s"
    using e intReplaceFunc_parses[of s] sint_int16[of "decimalValue s"] by simp
  have 8: "\<not> (isDecimalInteger s \<and> - 32768 \<le> decimalValue s \<and> decimalValue s \<le> 32767) \<longrightarrow>
            (\<exists>e. ReplaceFunc sc (Some s) = Inl (NumError e))"
    using e intReplaceFunc_fails[of s] by simp
  show ?thesis using 0 1 2 3 4 5 6 7 8 by (intro conjI) assumption+
qed

theorem narrow_integer_converters_witness:
  "int2Entry \<in> set (stringConverters constFloat)
   \<and> scInputTypeName int2Entry \<in> {''INT2'', ''INT8'', ''TINYINT'', ''INT16'', ''SMALLINT''}
   \<and> ConverterFunc (ToConverter int2Entry) (ScanNullString (Some ''32000'')) = Inr (Int16Ptr (Some 32000))
   \<and> ConverterFunc (ToConverter int2Entry) (ScanNullString (Some ''abc'')) = Inl (NumError ErrSyntax)
   \<and> ConverterFunc (ToConverter int2Entry) (ScanNullString (Some ''40000'')) = Inl (NumError ErrRange)
   \<and> ConverterFunc (ToConverter int2Entry) (ScanNullString None) = Inr NilValue"
proof -
  note t = narrow_integer_converters[OF int2Entry_listed int2Entry_name, of zeroFloat]
  note f = t[THEN conjunct2, THEN conjunct2, THEN conjunct2, THEN conjunct2, THEN conjunct2, THEN conjunct1]
  have r: "ReplaceFunc int2Entry = intReplaceFunc" by (simp add: int2Entry_def)
  show ?thesis
    using int2Entry_listed int2Entry_name
    by (simp add: f r intReplaceFunc_32000 intReplaceFunc_abc intReplaceFunc_40000 intReplaceFunc_nil)
qed


end
